theory Spec2Isabelle
  imports Main "HOL-Library.AList"
begin

section \<open>Python strings\<close>

text \<open>
  A Python \<open>str\<close> is a sequence of Unicode code points, so a string is a list of
  code points here. \<open>ustr\<close> embeds an ASCII literal.
\<close>

type_synonym ustring = "nat list"

definition ustr :: "string \<Rightarrow> ustring" where
  "ustr s = map of_char s"

text \<open>
  The characters \<open>str.strip()\<close>, \<open>str.isspace()\<close> and the regular expression class
  \<open>\s\<close> treat as whitespace (CPython's \<open>Py_UNICODE_ISSPACE\<close>).
\<close>

definition is_space :: "nat \<Rightarrow> bool" where
  "is_space c \<longleftrightarrow>
     (9 \<le> c \<and> c \<le> 13) \<or> (28 \<le> c \<and> c \<le> 32) \<or> c = 133 \<or> c = 160 \<or> c = 5760 \<or>
     (8192 \<le> c \<and> c \<le> 8202) \<or> c = 8232 \<or> c = 8233 \<or> c = 8239 \<or> c = 8287 \<or>
     c = 12288"

text \<open>
  \<open>int()\<close> and \<open>float()\<close> first turn every non-ASCII space into a blank and then skip
  the ASCII whitespace of C (\<open>" \t\n\r\f\v"\<close>): the separators U+001C..U+001F are
  whitespace for \<open>strip()\<close> but not for the two parsers.
\<close>

definition is_num_space :: "nat \<Rightarrow> bool" where
  "is_num_space c \<longleftrightarrow> is_space c \<and> \<not> (28 \<le> c \<and> c \<le> 31)"

text \<open>
  Decimal digits. Python's \<open>\d\<close>, \<open>int()\<close> and \<open>float()\<close> also accept the decimal
  digits of other scripts (Unicode category Nd); only the ASCII digits are modelled.
\<close>

definition is_digit :: "nat \<Rightarrow> bool" where
  "is_digit c \<longleftrightarrow> 48 \<le> c \<and> c \<le> 57"

definition dval :: "nat \<Rightarrow> nat" where
  "dval c = c - 48"

definition digits_val :: "ustring \<Rightarrow> nat" where
  "digits_val ds = foldl (\<lambda>a c. 10 * a + dval c) 0 ds"

definition strip_with :: "(nat \<Rightarrow> bool) \<Rightarrow> ustring \<Rightarrow> ustring" where
  "strip_with sp s = rev (dropWhile sp (rev (dropWhile sp s)))"

definition strip :: "ustring \<Rightarrow> ustring" where
  "strip s = strip_with is_space s"

text \<open>\<open>s.split(sep)\<close> for a one-character separator: never an empty list.\<close>

fun str_split :: "nat \<Rightarrow> ustring \<Rightarrow> ustring list" where
  "str_split sep [] = [[]]"
| "str_split sep (c # cs) =
     (if c = sep then [] # str_split sep cs
      else (case str_split sep cs of
              [] \<Rightarrow> [[c]]
            | w # ws \<Rightarrow> (c # w) # ws))"

text \<open>\<open>s.replace(old, new)\<close> for a one-character \<open>old\<close>.\<close>

definition str_replace :: "nat \<Rightarrow> ustring \<Rightarrow> ustring \<Rightarrow> ustring" where
  "str_replace old new s = concat (map (\<lambda>c. if c = old then new else [c]) s)"

text \<open>\<open>sep.join(xs)\<close>.\<close>

fun str_join :: "ustring \<Rightarrow> ustring list \<Rightarrow> ustring" where
  "str_join sep [] = []"
| "str_join sep [x] = x"
| "str_join sep (x # y # ys) = x @ sep @ str_join sep (y # ys)"

text \<open>The decimal numeral of a natural number and of an integer (\<open>str(n)\<close>).\<close>

fun decimal :: "nat \<Rightarrow> ustring" where
  "decimal n = (if n < 10 then [48 + n] else decimal (n div 10) @ [48 + n mod 10])"

declare decimal.simps [simp del]

definition show_int :: "int \<Rightarrow> ustring" where
  "show_int i = (if i < 0 then 45 # decimal (nat (- i)) else decimal (nat i))"

text \<open>ASCII lower-casing, as \<open>sqlite3Tolower\<close> and \<open>str.lower()\<close> act on ASCII.\<close>

definition to_lower :: "nat \<Rightarrow> nat" where
  "to_lower c = (if 65 \<le> c \<and> c \<le> 90 then c + 32 else c)"


section \<open>Python values and exceptions\<close>

text \<open>
  A finite \<open>float\<close> is \<open>Fin m e\<close>, standing for \<open>m * 2 ^ e\<close>; the sign of a zero is
  not kept.
\<close>

datatype pyfloat = Fin int int | PosInf | NegInf | NaN

datatype pyval =
    PNone
  | PBool bool
  | PInt int
  | PFloat pyfloat
  | PStr ustring
  | PList "pyval list"
  | PTuple "pyval list"
  | PDict "(ustring \<times> pyval) list"

text \<open>The exceptions the modelled code can raise; all are subclasses of \<open>Exception\<close>.\<close>

datatype pyerror =
    AttributeError | ValueError | TypeError | OverflowError | IndexError | ProgrammingError

definition bindE :: "pyerror + 'a \<Rightarrow> ('a \<Rightarrow> pyerror + 'b) \<Rightarrow> pyerror + 'b" where
  "bindE r f = (case r of Inl e \<Rightarrow> Inl e | Inr v \<Rightarrow> f v)"

text \<open>\<open>try: body except Exception: handler\<close>.\<close>

definition try_except :: "pyerror + 'a \<Rightarrow> pyerror + 'a \<Rightarrow> pyerror + 'a" where
  "try_except body handler = (case body of Inl e \<Rightarrow> handler | Inr v \<Rightarrow> Inr v)"

fun truthy :: "pyval \<Rightarrow> bool" where
  "truthy PNone = False"
| "truthy (PBool b) = b"
| "truthy (PInt i) = (i \<noteq> 0)"
| "truthy (PFloat (Fin m e)) = (m \<noteq> 0)"
| "truthy (PFloat _) = True"
| "truthy (PStr s) = (s \<noteq> [])"
| "truthy (PList xs) = (xs \<noteq> [])"
| "truthy (PTuple xs) = (xs \<noteq> [])"
| "truthy (PDict kvs) = (kvs \<noteq> [])"

text \<open>\<open>a or b\<close>.\<close>

definition py_or :: "pyval \<Rightarrow> pyval \<Rightarrow> pyval" where
  "py_or a b = (if truthy a then a else b)"

text \<open>\<open>v.strip()\<close>: only a \<open>str\<close> has the method.\<close>

fun strip_method :: "pyval \<Rightarrow> pyerror + ustring" where
  "strip_method (PStr s) = Inr (strip s)"
| "strip_method _ = Inl AttributeError"


section \<open>The builtins \<open>int\<close> and \<open>float\<close>\<close>

fun bitlen :: "nat \<Rightarrow> nat" where
  "bitlen n = (if n = 0 then 0 else 1 + bitlen (n div 2))"

declare bitlen.simps [simp del]

text \<open>\<open>floor (log2 (p / q))\<close> for positive \<open>p\<close> and \<open>q\<close>, given the difference of their lengths.\<close>

definition floor_log2_from :: "nat \<Rightarrow> nat \<Rightarrow> int \<Rightarrow> int" where
  "floor_log2_from p q d = (if q * 2 ^ nat d \<le> p * 2 ^ nat (- d) then d else d - 1)"

definition floor_log2 :: "nat \<Rightarrow> nat \<Rightarrow> int" where
  "floor_log2 p q = floor_log2_from p q (int (bitlen p) - int (bitlen q))"

text \<open>\<open>a / b\<close> rounded to the nearest integer, ties to even, from quotient and remainder.\<close>

definition rne_pick :: "nat \<Rightarrow> nat \<Rightarrow> nat \<Rightarrow> nat" where
  "rne_pick d r b =
     (if 2 * r < b then d else if b < 2 * r then d + 1 else if even d then d else d + 1)"

definition rne_div :: "nat \<Rightarrow> nat \<Rightarrow> nat" where
  "rne_div a b = rne_pick (a div b) (a mod b) b"

text \<open>
  The IEEE 754 binary64 value nearest to \<open>\<plusminus> p / q\<close> (round to nearest, ties to even):
  53 significant bits, least exponent \<open>-1074\<close>, overflow to infinity. \<open>round_at\<close> has
  the exponent of the last place, \<open>round_fin\<close> the rounded significand as well.
\<close>

definition round_fin :: "bool \<Rightarrow> nat \<Rightarrow> int \<Rightarrow> pyfloat" where
  "round_fin neg m e =
     (if 971 < e \<or> (e = 971 \<and> 2 ^ 53 \<le> m) then (if neg then NegInf else PosInf)
      else Fin (if neg then - int m else int m) e)"

definition round_at :: "bool \<Rightarrow> nat \<Rightarrow> nat \<Rightarrow> int \<Rightarrow> pyfloat" where
  "round_at neg p q e = round_fin neg (rne_div (p * 2 ^ nat (- e)) (q * 2 ^ nat e)) e"

definition round_double :: "bool \<Rightarrow> nat \<Rightarrow> nat \<Rightarrow> pyfloat" where
  "round_double neg p q =
     (if p = 0 then Fin 0 0 else round_at neg p q (max (floor_log2 p q) (- 1022) - 52))"

text \<open>\<open>int(f)\<close> for a float: truncation towards zero.\<close>

fun float_to_int :: "pyfloat \<Rightarrow> pyerror + int" where
  "float_to_int (Fin m e) =
     Inr (if 0 \<le> e then m * 2 ^ nat e
          else if 0 \<le> m then m div 2 ^ nat (- e)
          else - ((- m) div 2 ^ nat (- e)))"
| "float_to_int PosInf = Inl OverflowError"
| "float_to_int NegInf = Inl OverflowError"
| "float_to_int NaN = Inl ValueError"

text \<open>The product of two floats (\<open>a * b\<close>).\<close>

fun float_mul :: "pyfloat \<Rightarrow> pyfloat \<Rightarrow> pyfloat" where
  "float_mul (Fin m1 e1) (Fin m2 e2) =
     round_double ((m1 < 0) \<noteq> (m2 < 0))
       (nat \<bar>m1 * m2\<bar> * 2 ^ nat (e1 + e2)) (2 ^ nat (- (e1 + e2)))"
| "float_mul NaN _ = NaN"
| "float_mul _ NaN = NaN"
| "float_mul (Fin m e) PosInf = (if m = 0 then NaN else if m < 0 then NegInf else PosInf)"
| "float_mul (Fin m e) NegInf = (if m = 0 then NaN else if m < 0 then PosInf else NegInf)"
| "float_mul PosInf (Fin m e) = (if m = 0 then NaN else if m < 0 then NegInf else PosInf)"
| "float_mul NegInf (Fin m e) = (if m = 0 then NaN else if m < 0 then PosInf else NegInf)"
| "float_mul PosInf PosInf = PosInf"
| "float_mul PosInf NegInf = NegInf"
| "float_mul NegInf PosInf = NegInf"
| "float_mul NegInf NegInf = PosInf"

text \<open>
  Underscores in a numeric literal: each must stand between two digits. The result is
  the literal without them. The first argument is the previous character.
\<close>

fun drop_underscores :: "nat \<Rightarrow> ustring \<Rightarrow> ustring option" where
  "drop_underscores prev [] = (if prev = 95 then None else Some [])"
| "drop_underscores prev (c # cs) =
     (if c = 95 then (if is_digit prev then drop_underscores c cs else None)
      else if prev = 95 \<and> \<not> is_digit c then None
      else map_option ((#) c) (drop_underscores c cs))"

text \<open>An optional sign: whether it is a minus, and the rest.\<close>

fun take_sign :: "ustring \<Rightarrow> bool \<times> ustring" where
  "take_sign [] = (False, [])"
| "take_sign (c # cs) =
     (if c = 45 then (True, cs) else if c = 43 then (False, cs) else (False, c # cs))"

text \<open>
  \<open>int(s)\<close> for a string, base 10: surrounding whitespace, an optional sign, digits.
  The interpreter's configurable limit on the length of the literal is not modelled.
\<close>

definition int_of_str :: "ustring \<Rightarrow> pyerror + int" where
  "int_of_str s =
     (case drop_underscores 0 (strip_with is_num_space s) of
        None \<Rightarrow> Inl ValueError
      | Some t \<Rightarrow>
          (case take_sign t of
             (neg, ds) \<Rightarrow>
               if ds \<noteq> [] \<and> list_all is_digit ds
               then Inr (if neg then - int (digits_val ds) else int (digits_val ds))
               else Inl ValueError))"

text \<open>
  \<open>float(s)\<close> for a string: surrounding whitespace, an optional sign, then
  \<open>inf\<close>, \<open>infinity\<close> or \<open>nan\<close> in any case, or digits with an optional point and an
  optional exponent, with at least one digit before the exponent.
\<close>

definition float_exponent :: "ustring \<Rightarrow> int option" where
  "float_exponent r =
     (case r of
        [] \<Rightarrow> Some 0
      | c # cs \<Rightarrow>
          if c = 101 \<or> c = 69 then
            (case take_sign cs of
               (eneg, ds) \<Rightarrow>
                 if ds \<noteq> [] \<and> list_all is_digit ds
                 then Some (if eneg then - int (digits_val ds) else int (digits_val ds))
                 else None)
          else None)"

definition float_scale :: "bool \<Rightarrow> nat \<Rightarrow> int \<Rightarrow> pyfloat" where
  "float_scale neg d ex = round_double neg (d * 10 ^ nat ex) (10 ^ nat (- ex))"

definition float_mantissa :: "bool \<Rightarrow> ustring \<Rightarrow> ustring \<Rightarrow> ustring \<Rightarrow> pyerror + pyfloat" where
  "float_mantissa neg ip fp r =
     (if ip = [] \<and> fp = [] then Inl ValueError
      else (case float_exponent r of
              None \<Rightarrow> Inl ValueError
            | Some x \<Rightarrow> Inr (float_scale neg (digits_val (ip @ fp)) (x - int (length fp)))))"

definition float_digits :: "bool \<Rightarrow> ustring \<Rightarrow> ustring \<Rightarrow> pyerror + pyfloat" where
  "float_digits neg ip r =
     (case r of
        [] \<Rightarrow> float_mantissa neg ip [] []
      | c # cs \<Rightarrow>
          if c = 46 then float_mantissa neg ip (takeWhile is_digit cs) (dropWhile is_digit cs)
          else float_mantissa neg ip [] r)"

definition float_signed :: "bool \<Rightarrow> ustring \<Rightarrow> ustring \<Rightarrow> pyerror + pyfloat" where
  "float_signed neg r l =
     (if l = ustr ''inf'' \<or> l = ustr ''infinity'' then Inr (if neg then NegInf else PosInf)
      else if l = ustr ''nan'' then Inr NaN
      else float_digits neg (takeWhile is_digit r) (dropWhile is_digit r))"

definition float_of_str :: "ustring \<Rightarrow> pyerror + pyfloat" where
  "float_of_str s =
     (case drop_underscores 0 (strip_with is_num_space s) of
        None \<Rightarrow> Inl ValueError
      | Some t \<Rightarrow> (case take_sign t of (neg, r) \<Rightarrow> float_signed neg r (map to_lower r)))"

fun py_int :: "pyval \<Rightarrow> pyerror + int" where
  "py_int PNone = Inl TypeError"
| "py_int (PBool b) = Inr (if b then 1 else 0)"
| "py_int (PInt i) = Inr i"
| "py_int (PFloat f) = float_to_int f"
| "py_int (PStr s) = int_of_str s"
| "py_int (PList xs) = Inl TypeError"
| "py_int (PTuple xs) = Inl TypeError"
| "py_int (PDict kvs) = Inl TypeError"

fun py_float :: "pyval \<Rightarrow> pyerror + pyfloat" where
  "py_float PNone = Inl TypeError"
| "py_float (PBool b) = Inr (Fin (if b then 1 else 0) 0)"
| "py_float (PInt i) =
     (case round_double (i < 0) (nat \<bar>i\<bar>) 1 of
        PosInf \<Rightarrow> Inl OverflowError
      | NegInf \<Rightarrow> Inl OverflowError
      | f \<Rightarrow> Inr f)"
| "py_float (PFloat f) = Inr f"
| "py_float (PStr s) = float_of_str s"
| "py_float (PList xs) = Inl TypeError"
| "py_float (PTuple xs) = Inl TypeError"
| "py_float (PDict kvs) = Inl TypeError"


section \<open>storage.py: the helpers of \<open>HotItemsHistoryDB\<close>\<close>

text \<open>
  \<open>_as_int(x)\<close>: \<open>None\<close> and the empty string give \<open>None\<close>; otherwise \<open>int(x)\<close>, on
  any exception \<open>int(float(x))\<close>, on any exception \<open>None\<close>.
\<close>

definition as_int :: "pyval \<Rightarrow> pyerror + int option" where
  "as_int x =
     (if x = PNone \<or> x = PStr [] then Inr None
      else try_except (map_sum id Some (py_int x))
             (try_except (map_sum id Some (bindE (py_float x) float_to_int))
                (Inr None)))"

text \<open>
  \<open>_escape_like(s)\<close>: three replacements in a row, the backslash first.
\<close>

definition escape_like :: "ustring \<Rightarrow> ustring" where
  "escape_like s =
     str_replace 95 [92, 95] (str_replace 37 [92, 37] (str_replace 92 [92, 92] s))"

text \<open>The escaped keyword between two wildcards: the parameter bound to each \<open>LIKE ?\<close>.\<close>

definition like_pattern :: "ustring \<Rightarrow> ustring" where
  "like_pattern keyword = 37 # escape_like keyword @ [37]"

text \<open>
  \<open>_ALLOWED_ORDERS\<close>, and the check at the head of \<open>query_history\<close>.
\<close>

definition ALLOWED_ORDERS :: "ustring list" where
  "ALLOWED_ORDERS =
     [ustr ''scraped_at DESC'', ustr ''scraped_at ASC'',
      ustr ''scraped_date DESC'', ustr ''scraped_date ASC'',
      ustr ''heat_value DESC'', ustr ''heat_value ASC'',
      ustr ''rank ASC'', ustr ''rank DESC'',
      ustr ''id DESC'', ustr ''id ASC'']"

definition effective_order :: "ustring \<Rightarrow> ustring" where
  "effective_order order_by =
     (if order_by \<notin> set ALLOWED_ORDERS then ustr ''scraped_at DESC'' else order_by)"


section \<open>scraper/weibo.py: \<open>_parse_heat_value\<close>\<close>

text \<open>
  \<open>str(v)\<close>. The text of a float or of a container is left to the parameter \<open>repr\<close>.
\<close>

definition py_str :: "(pyval \<Rightarrow> ustring) \<Rightarrow> pyval \<Rightarrow> ustring" where
  "py_str repr v =
     (case v of
        PStr s \<Rightarrow> s
      | PInt i \<Rightarrow> show_int i
      | PBool b \<Rightarrow> (if b then ustr ''True'' else ustr ''False'')
      | PNone \<Rightarrow> ustr ''None''
      | _ \<Rightarrow> repr v)"

text \<open>The units: U+4E07 (ten thousand) and U+4EBF (hundred million).\<close>

definition wan :: nat where "wan = 19975"
definition yi :: nat where "yi = 20159"

definition num_char :: "nat \<Rightarrow> bool" where
  "num_char c \<longleftrightarrow> is_digit c \<or> c = 46"

text \<open>
  \<open>re.match(r"^\s*([\d\.]+)\s*(unit)?\s*$", s)\<close> with the two units as alternatives:
  the groups 1 and 2 of the match, or \<open>None\<close>. No character is a digit or a point and
  also whitespace or a unit, so the greedy split is the only possible match.
\<close>

definition heat_regex_tail :: "ustring \<Rightarrow> ustring \<Rightarrow> (ustring \<times> ustring option) option" where
  "heat_regex_tail g1 r =
     (case r of
        [] \<Rightarrow> (if g1 \<noteq> [] then Some (g1, None) else None)
      | c # cs \<Rightarrow>
          if c = wan \<or> c = yi
          then (if g1 \<noteq> [] \<and> dropWhile is_space cs = [] then Some (g1, Some [c]) else None)
          else None)"

definition heat_regex :: "ustring \<Rightarrow> (ustring \<times> ustring option) option" where
  "heat_regex s =
     heat_regex_tail (takeWhile num_char (dropWhile is_space s))
       (dropWhile is_space (dropWhile num_char (dropWhile is_space s)))"

text \<open>The part of \<open>_parse_heat_value\<close> after a match: \<open>val\<close>, the unit, \<open>int(val)\<close>.\<close>

definition scale_heat :: "pyfloat \<Rightarrow> ustring option \<Rightarrow> pyerror + int option" where
  "scale_heat val unit =
     map_sum id Some
       (float_to_int
          (if unit = Some [wan] then float_mul val (Fin 10000 0)
           else if unit = Some [yi] then float_mul val (Fin 100000000 0)
           else val))"

definition parse_heat_str :: "ustring \<Rightarrow> pyerror + int option" where
  "parse_heat_str s =
     (if s = [] then Inr None
      else
        (case heat_regex s of
           None \<Rightarrow>
             try_except (map_sum id Some (bindE (float_of_str s) float_to_int)) (Inr None)
         | Some (g1, unit) \<Rightarrow> bindE (float_of_str g1) (\<lambda>val. scale_heat val unit)))"

definition parse_heat_value :: "(pyval \<Rightarrow> ustring) \<Rightarrow> pyval \<Rightarrow> pyerror + int option" where
  "parse_heat_value repr num =
     (if num = PNone then Inr None else parse_heat_str (strip (py_str repr num)))"


section \<open>The table \<open>hot_items_history\<close> and the connection\<close>

text \<open>
  The columns of init_db.py's DDL but the surrogate key, then a stored row. A nullable
  column is an option. What a \<open>TEXT\<close> column stores is text: the column's affinity has
  turned a bound integer or real into its text.
\<close>

record fields =
  platform :: ustring
  topic_key :: "ustring option"
  title :: ustring
  url :: ustring
  image_url :: "ustring option"
  excerpt :: "ustring option"
  heat_text :: "ustring option"
  heat_value :: "int option"
  rank :: "int option"
  tags_text :: "ustring option"
  scraped_at :: ustring
  scraped_date :: ustring
  extra_json :: "ustring option"

record hrow = fields +
  row_id :: nat

text \<open>
  The table with the counter \<open>AUTOINCREMENT\<close> keeps in \<open>sqlite_sequence\<close>: the largest
  row id ever handed out.
\<close>

record table =
  rows :: "hrow list"
  seq :: nat

text \<open>\<open>UNIQUE(platform, url, scraped_date)\<close>.\<close>

definition row_key :: "'a fields_scheme \<Rightarrow> ustring \<times> ustring \<times> ustring" where
  "row_key r = (platform r, url r, scraped_date r)"

text \<open>
  One tuple of \<open>rows\<close>, as \<open>upsert_history\<close> hands it to \<open>executemany\<close>: Python values,
  not yet bound.
\<close>

record params =
  p_platform :: ustring
  p_topic_key :: pyval
  p_title :: ustring
  p_url :: ustring
  p_image_url :: pyval
  p_excerpt :: pyval
  p_heat_text :: pyval
  p_heat_value :: "int option"
  p_rank :: "int option"
  p_tags_text :: "ustring option"
  p_scraped_at :: ustring
  p_scraped_date :: ustring
  p_extra_json :: "ustring option"

definition p_key :: "params \<Rightarrow> ustring \<times> ustring \<times> ustring" where
  "p_key p = (p_platform p, p_url p, p_scraped_date p)"

text \<open>
  Binding a Python value to a parameter of a \<open>TEXT\<close> column, as the \<open>sqlite3\<close> module
  does: \<open>None\<close> is \<open>NULL\<close>, an \<open>int\<close> must fit 64 bits, a NaN is stored as \<open>NULL\<close>, a
  container cannot be bound. \<open>real_text\<close> is the engine's text of a real.
\<close>

definition int64 :: "int \<Rightarrow> bool" where
  "int64 i \<longleftrightarrow> - (2 ^ 63) \<le> i \<and> i < 2 ^ 63"

fun bind_text :: "(pyfloat \<Rightarrow> ustring) \<Rightarrow> pyval \<Rightarrow> pyerror + ustring option" where
  "bind_text rt PNone = Inr None"
| "bind_text rt (PBool b) = Inr (Some (if b then [49] else [48]))"
| "bind_text rt (PInt i) = (if int64 i then Inr (Some (show_int i)) else Inl OverflowError)"
| "bind_text rt (PFloat NaN) = Inr None"
| "bind_text rt (PFloat f) = Inr (Some (rt f))"
| "bind_text rt (PStr s) = Inr (Some s)"
| "bind_text rt (PList xs) = Inl ProgrammingError"
| "bind_text rt (PTuple xs) = Inl ProgrammingError"
| "bind_text rt (PDict kvs) = Inl ProgrammingError"

definition bind_integer :: "int option \<Rightarrow> pyerror + int option" where
  "bind_integer v =
     (case v of None \<Rightarrow> Inr None | Some i \<Rightarrow> if int64 i then Inr (Some i) else Inl OverflowError)"

text \<open>The thirteen parameters are bound in order; the first failure is raised.\<close>

definition bind_params :: "(pyfloat \<Rightarrow> ustring) \<Rightarrow> params \<Rightarrow> pyerror + fields" where
  "bind_params rt p =
     bindE (bind_text rt (p_topic_key p)) (\<lambda>tk.
     bindE (bind_text rt (p_image_url p)) (\<lambda>iu.
     bindE (bind_text rt (p_excerpt p)) (\<lambda>ex.
     bindE (bind_text rt (p_heat_text p)) (\<lambda>ht.
     bindE (bind_integer (p_heat_value p)) (\<lambda>hv.
     bindE (bind_integer (p_rank p)) (\<lambda>rk.
       Inr \<lparr>platform = p_platform p, topic_key = tk, title = p_title p, url = p_url p,
            image_url = iu, excerpt = ex, heat_text = ht, heat_value = hv, rank = rk,
            tags_text = p_tags_text p, scraped_at = p_scraped_at p,
            scraped_date = p_scraped_date p, extra_json = p_extra_json p\<rparr>))))))"

text \<open>
  The statement of \<open>upsert_history\<close> on one bound tuple:
  \<open>INSERT ... ON CONFLICT(platform, url, scraped_date) DO UPDATE SET ...\<close>. The clause
  takes the place of the constraint's own \<open>ON CONFLICT REPLACE\<close>. A row id is drawn
  from the sequence for every statement, also when the row is then updated.
\<close>

definition do_update :: "hrow \<Rightarrow> fields \<Rightarrow> hrow" where
  "do_update r excluded =
     r\<lparr>topic_key := topic_key excluded,
       title := title excluded,
       image_url := image_url excluded,
       excerpt := excerpt excluded,
       heat_text := heat_text excluded,
       heat_value := heat_value excluded,
       rank := rank excluded,
       tags_text := tags_text excluded,
       scraped_at := scraped_at excluded,
       extra_json := extra_json excluded\<rparr>"

definition new_row_id :: "table \<Rightarrow> nat" where
  "new_row_id t = Suc (fold max (map row_id (rows t)) (seq t))"

definition insert_row :: "fields \<Rightarrow> nat \<Rightarrow> hrow" where
  "insert_row b n =
     \<lparr>platform = platform b, topic_key = topic_key b, title = title b, url = url b,
      image_url = image_url b, excerpt = excerpt b, heat_text = heat_text b,
      heat_value = heat_value b, rank = rank b, tags_text = tags_text b,
      scraped_at = scraped_at b, scraped_date = scraped_date b, extra_json = extra_json b,
      row_id = n\<rparr>"

definition exec_upsert :: "table \<Rightarrow> fields \<Rightarrow> table" where
  "exec_upsert t b =
     (if \<exists>r \<in> set (rows t). row_key r = row_key b
      then \<lparr>rows = map (\<lambda>r. if row_key r = row_key b then do_update r b else r) (rows t),
            seq = new_row_id t\<rparr>
      else \<lparr>rows = rows t @ [insert_row b (new_row_id t)], seq = new_row_id t\<rparr>)"

text \<open>
  A connection of the \<open>sqlite3\<close> module: the committed table, and the table of the open
  transaction if there is one. The module opens a transaction before a data-modifying
  statement and ends it only at \<open>commit\<close>, \<open>rollback\<close> or \<open>close\<close>; an exception leaves
  it open with the statements executed so far.
\<close>

record conn =
  committed :: table
  pending :: "table option"

definition visible :: "conn \<Rightarrow> table" where
  "visible c = (case pending c of None \<Rightarrow> committed c | Some t \<Rightarrow> t)"

fun executemany_loop ::
  "(pyfloat \<Rightarrow> ustring) \<Rightarrow> table \<Rightarrow> params list \<Rightarrow> nat \<Rightarrow> (pyerror + nat) \<times> table" where
  "executemany_loop rt t [] n = (Inr n, t)"
| "executemany_loop rt t (p # ps) n =
     (case bind_params rt p of
        Inl e \<Rightarrow> (Inl e, t)
      | Inr b \<Rightarrow> executemany_loop rt (exec_upsert t b) ps (n + 1))"

text \<open>\<open>conn.executemany(sql, rows)\<close>: the result is the cursor's \<open>rowcount\<close>.\<close>

definition executemany :: "(pyfloat \<Rightarrow> ustring) \<Rightarrow> conn \<Rightarrow> params list \<Rightarrow> (pyerror + nat) \<times> conn" where
  "executemany rt c ps =
     (case executemany_loop rt (visible c) ps 0 of (r, t) \<Rightarrow> (r, c\<lparr>pending := Some t\<rparr>))"

definition commit :: "conn \<Rightarrow> conn" where
  "commit c = \<lparr>committed = visible c, pending = None\<rparr>"

text \<open>\<open>conn.close()\<close>: an open transaction is rolled back.\<close>

definition close_conn :: "conn \<Rightarrow> conn" where
  "close_conn c = c\<lparr>pending := None\<rparr>"

definition empty_conn :: conn where
  "empty_conn = \<lparr>committed = \<lparr>rows = [], seq = 0\<rparr>, pending = None\<rparr>"


section \<open>storage.py: \<open>upsert_history\<close>\<close>

text \<open>\<open>datetime.now().strftime("%Y-%m-%d %H:%M:%S")\<close>: the microseconds are dropped.\<close>

record datetime =
  dt_year :: nat
  dt_month :: nat
  dt_day :: nat
  dt_hour :: nat
  dt_minute :: nat
  dt_second :: nat
  dt_microsecond :: nat

definition zero_pad :: "nat \<Rightarrow> nat \<Rightarrow> ustring" where
  "zero_pad w n = replicate (w - length (decimal n)) 48 @ decimal n"

definition strftime :: "datetime \<Rightarrow> ustring" where
  "strftime d =
     zero_pad 4 (dt_year d) @ [45] @ zero_pad 2 (dt_month d) @ [45] @ zero_pad 2 (dt_day d) @
     [32] @ zero_pad 2 (dt_hour d) @ [58] @ zero_pad 2 (dt_minute d) @ [58] @
     zero_pad 2 (dt_second d)"

text \<open>
  What the method takes from outside the repository: the wall clock (\<open>now env i\<close> is
  what \<open>datetime.now()\<close> returns while the item at position \<open>i\<close> of the batch is being
  processed), \<open>str()\<close> of a float or a container, \<open>json.dumps(..., ensure_ascii=False)\<close>
  and the engine's text of a real.
\<close>

record env =
  now :: "nat \<Rightarrow> datetime"
  repr :: "pyval \<Rightarrow> ustring"
  json_dumps :: "(ustring \<times> pyval) list \<Rightarrow> ustring"
  real_text :: "pyfloat \<Rightarrow> ustring"

text \<open>A raw item: a mapping from keys to values. \<open>it.get(k)\<close> and \<open>it.get(k, d)\<close>.\<close>

type_synonym item = "ustring \<rightharpoonup> pyval"

definition dict_get_default :: "item \<Rightarrow> ustring \<Rightarrow> pyval \<Rightarrow> pyval" where
  "dict_get_default it k d = (case it k of None \<Rightarrow> d | Some v \<Rightarrow> v)"

definition dict_get :: "item \<Rightarrow> ustring \<Rightarrow> pyval" where
  "dict_get it k = dict_get_default it k PNone"

text \<open>\<open>xs[0]\<close>.\<close>

definition index0 :: "'a list \<Rightarrow> pyerror + 'a" where
  "index0 xs = (case xs of [] \<Rightarrow> Inl IndexError | x # _ \<Rightarrow> Inr x)"

text \<open>The keyword arguments \<open>topic_key_field\<close>, \<open>tags_join_from\<close> and \<open>extra_fields\<close>.\<close>

record policy =
  topic_key_field :: "ustring option"
  tags_join_from :: "ustring option"
  extra_fields :: "ustring list option"

definition join_tags :: "env \<Rightarrow> pyval list \<Rightarrow> ustring option" where
  "join_tags env xs =
     (let tags = filter (\<lambda>t. t \<noteq> []) (map (\<lambda>x. strip (py_str (repr env) x)) xs)
      in if tags \<noteq> [] then Some (str_join [124] tags) else None)"

definition tags_of :: "env \<Rightarrow> policy \<Rightarrow> item \<Rightarrow> ustring option" where
  "tags_of env pol it =
     (case tags_join_from pol of
        None \<Rightarrow> None
      | Some f \<Rightarrow>
          if f = [] then None
          else (case dict_get it f of
                  PList xs \<Rightarrow> join_tags env xs
                | PTuple xs \<Rightarrow> join_tags env xs
                | _ \<Rightarrow> None))"

definition topic_key_of :: "policy \<Rightarrow> item \<Rightarrow> pyval" where
  "topic_key_of pol it =
     (case topic_key_field pol of
        None \<Rightarrow> PNone
      | Some f \<Rightarrow> if f = [] then PNone else dict_get it f)"

definition extra_of :: "policy \<Rightarrow> item \<Rightarrow> (ustring \<times> pyval) list" where
  "extra_of pol it =
     fold (\<lambda>k extra. case it k of None \<Rightarrow> extra | Some v \<Rightarrow> AList.update k v extra)
       (case extra_fields pol of None \<Rightarrow> [] | Some ks \<Rightarrow> ks) []"

text \<open>
  The body of the loop over \<open>items\<close>: \<open>None\<close> is \<open>continue\<close>, otherwise the tuple
  appended to \<open>rows\<close>.
\<close>

definition build_row :: "env \<Rightarrow> ustring \<Rightarrow> policy \<Rightarrow> nat \<Rightarrow> item \<Rightarrow> pyerror + params option" where
  "build_row env pf pol i it =
     bindE (strip_method (py_or (dict_get it (ustr ''title'')) (PStr []))) (\<lambda>ttl.
     bindE (strip_method (py_or (dict_get it (ustr ''url'')) (PStr []))) (\<lambda>u.
     bindE (strip_method (py_or (dict_get it (ustr ''scraped_at'')) (PStr []))) (\<lambda>sa0.
       if \<not> (ttl \<noteq> [] \<and> u \<noteq> []) then Inr None
       else
         let sa = (if sa0 = [] then strftime (now env i) else sa0) in
         bindE (index0 (str_split 32 sa)) (\<lambda>sd.
         bindE (as_int (dict_get_default it (ustr ''heat_value'') (dict_get it (ustr ''num'')))) (\<lambda>hv.
         bindE (as_int (dict_get it (ustr ''rank''))) (\<lambda>rk.
           let extra = extra_of pol it in
           Inr (Some \<lparr>p_platform = pf,
                      p_topic_key = topic_key_of pol it,
                      p_title = ttl,
                      p_url = u,
                      p_image_url = dict_get it (ustr ''image_url''),
                      p_excerpt = dict_get it (ustr ''excerpt''),
                      p_heat_text = dict_get it (ustr ''heat_text''),
                      p_heat_value = hv,
                      p_rank = rk,
                      p_tags_text = tags_of env pol it,
                      p_scraped_at = sa,
                      p_scraped_date = sd,
                      p_extra_json = (if extra \<noteq> [] then Some (json_dumps env extra) else None)\<rparr>)))))))"

fun build_rows :: "env \<Rightarrow> ustring \<Rightarrow> policy \<Rightarrow> nat \<Rightarrow> item list \<Rightarrow> pyerror + params list" where
  "build_rows env pf pol i [] = Inr []"
| "build_rows env pf pol i (it # its) =
     bindE (build_row env pf pol i it) (\<lambda>r.
     bindE (build_rows env pf pol (Suc i) its) (\<lambda>rs.
       Inr (case r of None \<Rightarrow> rs | Some p \<Rightarrow> p # rs)))"

text \<open>
  \<open>upsert_history\<close>: the result (an exception or the row count) and the connection
  afterwards.
\<close>

definition upsert_history ::
  "env \<Rightarrow> conn \<Rightarrow> ustring \<Rightarrow> item list \<Rightarrow> policy \<Rightarrow> (pyerror + nat) \<times> conn" where
  "upsert_history env c pf items pol =
     (case build_rows env pf pol 0 items of
        Inl e \<Rightarrow> (Inl e, c)
      | Inr rs \<Rightarrow>
          if rs = [] then (Inr 0, c)
          else (case executemany (real_text env) c rs of
                  (Inl e, c') \<Rightarrow> (Inl e, c')
                | (Inr n, c') \<Rightarrow> (Inr n, commit c')))"

text \<open>
  A sequence of calls on one connection; a caller that catches the exception of a call
  goes on with the connection as the call left it.
\<close>

record call =
  call_env :: env
  call_platform :: ustring
  call_items :: "item list"
  call_policy :: policy

fun run_calls :: "conn \<Rightarrow> call list \<Rightarrow> conn" where
  "run_calls c [] = c"
| "run_calls c (k # ks) =
     run_calls (snd (upsert_history (call_env k) c (call_platform k) (call_items k) (call_policy k))) ks"


section \<open>main.py: \<open>run_once\<close>\<close>

text \<open>The per-platform keyword arguments of \<open>run_once\<close>.\<close>

definition policy_for :: "ustring \<Rightarrow> policy" where
  "policy_for name =
     (if name = ustr ''weibo'' then
        \<lparr>topic_key_field = Some (ustr ''word_scheme''), tags_join_from = None,
         extra_fields = Some [ustr ''word_scheme'']\<rparr>
      else if name = ustr ''douyin'' then
        \<lparr>topic_key_field = Some (ustr ''sentence_id''), tags_join_from = None,
         extra_fields = Some []\<rparr>
      else if name = ustr ''baidu'' then
        \<lparr>topic_key_field = None, tags_join_from = None, extra_fields = Some [ustr ''avatar_url'']\<rparr>
      else if name = ustr ''zhihu'' then
        \<lparr>topic_key_field = None, tags_join_from = None, extra_fields = Some [ustr ''avatar_url'']\<rparr>
      else if name = ustr ''cailian'' then
        \<lparr>topic_key_field = None, tags_join_from = None,
         extra_fields = Some [ustr ''id'', ustr ''ctime'', ustr ''level'', ustr ''comment_num'']\<rparr>
      else
        \<lparr>topic_key_field = None, tags_join_from = None, extra_fields = Some []\<rparr>)"

definition SPIDER_REGISTRY :: "ustring list" where
  "SPIDER_REGISTRY = [ustr ''zhihu'', ustr ''weibo'', ustr ''douyin'', ustr ''baidu'', ustr ''cailian'']"

text \<open>
  The loop of \<open>run_once\<close> over the providers, all on the one connection \<open>db\<close>. A
  provider is its name, the clock during its batch and what its \<open>spider.run()\<close> gives:
  an exception or the items. The second component is \<open>total\<close>.
\<close>

fun run_providers ::
  "(pyval \<Rightarrow> ustring) \<Rightarrow> ((ustring \<times> pyval) list \<Rightarrow> ustring) \<Rightarrow> (pyfloat \<Rightarrow> ustring) \<Rightarrow>
   conn \<Rightarrow> nat \<Rightarrow> (ustring \<times> (nat \<Rightarrow> datetime) \<times> (pyerror + item list)) list \<Rightarrow> conn \<times> nat" where
  "run_providers rp jd rt c tot [] = (c, tot)"
| "run_providers rp jd rt c tot ((name0, clock, fetched) # ps) =
     (let name = map to_lower name0 in
      if name \<notin> set SPIDER_REGISTRY then run_providers rp jd rt c tot ps
      else
        (case fetched of
           Inl e \<Rightarrow> run_providers rp jd rt c tot ps
         | Inr items \<Rightarrow>
             if items = [] then run_providers rp jd rt c tot ps
             else
               (case upsert_history \<lparr>now = clock, repr = rp, json_dumps = jd, real_text = rt\<rparr>
                       c name items (policy_for name) of
                  (Inl e, c') \<Rightarrow> run_providers rp jd rt c' tot ps
                | (Inr inserted, c') \<Rightarrow> run_providers rp jd rt c' (tot + inserted) ps)))"

text \<open>
  \<open>run_once\<close> on the database file: a new connection, the loop, \<open>db.close()\<close>. The
  result is the committed table.
\<close>

definition run_once ::
  "(pyval \<Rightarrow> ustring) \<Rightarrow> ((ustring \<times> pyval) list \<Rightarrow> ustring) \<Rightarrow> (pyfloat \<Rightarrow> ustring) \<Rightarrow>
   table \<Rightarrow> (ustring \<times> (nat \<Rightarrow> datetime) \<times> (pyerror + item list)) list \<Rightarrow> table" where
  "run_once rp jd rt db providers =
     committed (close_conn (fst (run_providers rp jd rt \<lparr>committed = db, pending = None\<rparr> 0 providers)))"


section \<open>storage.py: \<open>count_history\<close> and \<open>query_history\<close>\<close>

text \<open>
  The engine's \<open>LIKE\<close> with an \<open>ESCAPE\<close> character (\<open>patternCompare\<close> of SQLite):
  \<open>%\<close> stands for any run of characters, \<open>_\<close> for any one character, the escape
  character makes the next character literal, and a literal character matches itself,
  an ASCII letter in either case. Strings are taken without U+0000.
\<close>

definition like_char :: "nat \<Rightarrow> nat \<Rightarrow> bool" where
  "like_char c x \<longleftrightarrow> c = x \<or> (c < 128 \<and> x < 128 \<and> to_lower c = to_lower x)"

fun sql_like :: "nat \<Rightarrow> ustring \<Rightarrow> ustring \<Rightarrow> bool" where
  "sql_like esc [] s = (s = [])"
| "sql_like esc (c # p) [] = (if c = 37 then sql_like esc p [] else False)"
| "sql_like esc (c # p) (x # s) =
     (if c = 37 then sql_like esc p (x # s) \<or> sql_like esc (c # p) s
      else if c = esc then
        (case p of [] \<Rightarrow> False | d # p' \<Rightarrow> like_char d x \<and> sql_like esc p' s)
      else if c = 95 then sql_like esc p s
      else like_char c x \<and> sql_like esc p s)"

text \<open>\<open>col LIKE ? ESCAPE '\'\<close> as a condition: \<open>NULL\<close> does not satisfy it.\<close>

definition col_like :: "ustring \<Rightarrow> ustring option \<Rightarrow> bool" where
  "col_like pat v = (case v of None \<Rightarrow> False | Some t \<Rightarrow> sql_like 92 pat t)"

text \<open>The comparison of two texts (code point order, as the bytes of UTF-8 order).\<close>

fun str_le :: "ustring \<Rightarrow> ustring \<Rightarrow> bool" where
  "str_le [] t = True"
| "str_le (x # xs) [] = False"
| "str_le (x # xs) (y # ys) = (x < y \<or> (x = y \<and> str_le xs ys))"

text \<open>
  The \<open>WHERE\<close> clause both methods build: each part is added only if its argument is
  given and not empty.
\<close>

definition where_clause ::
  "ustring option \<Rightarrow> ustring list option \<Rightarrow> ustring option \<Rightarrow> ustring option \<Rightarrow> hrow \<Rightarrow> bool" where
  "where_clause keyword platforms date_from date_to r \<longleftrightarrow>
     (case platforms of None \<Rightarrow> True | Some ps \<Rightarrow> ps = [] \<or> platform r \<in> set ps) \<and>
     (case keyword of
        None \<Rightarrow> True
      | Some k \<Rightarrow>
          k = [] \<or>
          (let kw = like_pattern k
           in col_like kw (Some (title r)) \<or> col_like kw (excerpt r) \<or> col_like kw (Some (url r)))) \<and>
     (case date_from of None \<Rightarrow> True | Some d \<Rightarrow> d = [] \<or> str_le d (scraped_date r)) \<and>
     (case date_to of None \<Rightarrow> True | Some d \<Rightarrow> d = [] \<or> str_le (scraped_date r) d)"

definition count_history ::
  "conn \<Rightarrow> ustring option \<Rightarrow> ustring list option \<Rightarrow> ustring option \<Rightarrow> ustring option \<Rightarrow> nat" where
  "count_history c keyword platforms date_from date_to =
     length (filter (where_clause keyword platforms date_from date_to) (rows (visible c)))"

text \<open>The twelve columns \<open>query_history\<close> selects.\<close>

record hit =
  h_id :: nat
  h_platform :: ustring
  h_scraped_date :: ustring
  h_scraped_at :: ustring
  h_rank :: "int option"
  h_title :: ustring
  h_url :: ustring
  h_heat_text :: "ustring option"
  h_heat_value :: "int option"
  h_excerpt :: "ustring option"
  h_image_url :: "ustring option"
  h_tags_text :: "ustring option"

definition select_columns :: "hrow \<Rightarrow> hit" where
  "select_columns r =
     \<lparr>h_id = row_id r, h_platform = platform r, h_scraped_date = scraped_date r,
      h_scraped_at = scraped_at r, h_rank = rank r, h_title = title r, h_url = url r,
      h_heat_text = heat_text r, h_heat_value = heat_value r, h_excerpt = excerpt r,
      h_image_url = image_url r, h_tags_text = tags_text r\<rparr>"

text \<open>\<open>LIMIT ? OFFSET ?\<close>: a negative limit is no limit, a negative offset is none.\<close>

definition limit_offset :: "int \<Rightarrow> int \<Rightarrow> 'a list \<Rightarrow> 'a list" where
  "limit_offset lim off xs =
     (let ys = drop (nat off) xs in if lim < 0 then ys else take (nat lim) ys)"

text \<open>
  \<open>query_history\<close>. The engine's \<open>ORDER BY\<close> is the parameter \<open>order_rows\<close>: it gets
  the clause interpolated into the statement.
\<close>

definition query_history ::
  "(ustring \<Rightarrow> hrow list \<Rightarrow> hrow list) \<Rightarrow> conn \<Rightarrow> ustring option \<Rightarrow> ustring list option \<Rightarrow>
   ustring option \<Rightarrow> ustring option \<Rightarrow> ustring \<Rightarrow> int \<Rightarrow> int \<Rightarrow> hit list" where
  "query_history order_rows c keyword platforms date_from date_to order_by lim off =
     map select_columns
       (limit_offset lim off
          (order_rows (effective_order order_by)
             (filter (where_clause keyword platforms date_from date_to) (rows (visible c)))))"


section \<open>Properties of the table, as the specification words them\<close>

text \<open>At most one row per (platform, url, scraped_date).\<close>

definition unique_keys :: "table \<Rightarrow> bool" where
  "unique_keys t \<longleftrightarrow> distinct (map row_key (rows t))"

text \<open>The row holds the record's value in every mutable field.\<close>

definition holds_values :: "hrow \<Rightarrow> fields \<Rightarrow> bool" where
  "holds_values r b \<longleftrightarrow>
     topic_key r = topic_key b \<and> title r = title b \<and> image_url r = image_url b \<and>
     excerpt r = excerpt b \<and> heat_text r = heat_text b \<and> heat_value r = heat_value b \<and>
     rank r = rank b \<and> tags_text r = tags_text b \<and> scraped_at r = scraped_at b \<and>
     extra_json r = extra_json b"

text \<open>The date portion of a timestamp: the prefix before the first space.\<close>

definition date_prefix :: "ustring \<Rightarrow> ustring" where
  "date_prefix s = takeWhile (\<lambda>c. c \<noteq> 32) s"

text \<open>A value is a string, or falsy (so that \<open>or ""\<close> replaces it).\<close>

fun str_or_falsy :: "pyval \<Rightarrow> bool" where
  "str_or_falsy (PStr s) = True"
| "str_or_falsy v = (\<not> truthy v)"

text \<open>
  A title or url is blank: a string that is empty or whitespace only, or a falsy value
  (absent, \<open>None\<close>, zero, an empty container).
\<close>

fun blank :: "pyval \<Rightarrow> bool" where
  "blank (PStr s) = (strip s = [])"
| "blank v = (\<not> truthy v)"

text \<open>
  The keyword occurs in the text character by character, an ASCII letter in either
  case: at the head of the text, or somewhere in it.
\<close>

fun literal_prefix :: "ustring \<Rightarrow> ustring \<Rightarrow> bool" where
  "literal_prefix [] t = True"
| "literal_prefix (k # ks) [] = False"
| "literal_prefix (k # ks) (x # xs) = (like_char k x \<and> literal_prefix ks xs)"

fun occurs_literally :: "ustring \<Rightarrow> ustring \<Rightarrow> bool" where
  "occurs_literally kw [] = literal_prefix kw []"
| "occurs_literally kw (x # xs) = (literal_prefix kw (x # xs) \<or> occurs_literally kw xs)"

text \<open>
  What becomes of one item of a batch: an exception, or whether a tuple is appended
  to \<open>rows\<close>.
\<close>

definition row_outcome :: "pyerror + params option \<Rightarrow> pyerror + bool" where
  "row_outcome r = map_sum id (\<lambda>p. p \<noteq> None) r"

text \<open>A clock, renderings and items to run the definitions on.\<close>

definition sample_env :: env where
  "sample_env =
     \<lparr>now = (\<lambda>i. \<lparr>dt_year = 2025, dt_month = 1, dt_day = 2, dt_hour = 3, dt_minute = 4,
                    dt_second = 5, dt_microsecond = 678\<rparr>),
      repr = (\<lambda>v. []), json_dumps = (\<lambda>kvs. ustr ''{}''), real_text = (\<lambda>f. [])\<rparr>"

definition no_policy :: policy where
  "no_policy = \<lparr>topic_key_field = None, tags_join_from = None, extra_fields = None\<rparr>"

definition item_abc :: item where
  "item_abc =
     [ustr ''title'' \<mapsto> PStr (ustr ''X''), ustr ''url'' \<mapsto> PStr (ustr ''http://a''),
      ustr ''scraped_at'' \<mapsto> PStr (ustr ''2025-01-01 10:00:00''),
      ustr ''heat_value'' \<mapsto> PStr (ustr ''abc''), ustr ''num'' \<mapsto> PInt 42,
      ustr ''rank'' \<mapsto> PStr (ustr ''7'')]"

definition row_abc :: params where
  "row_abc =
     \<lparr>p_platform = ustr ''baidu'', p_topic_key = PNone, p_title = ustr ''X'',
      p_url = ustr ''http://a'', p_image_url = PNone, p_excerpt = PNone,
      p_heat_text = PNone, p_heat_value = None, p_rank = Some 7, p_tags_text = None,
      p_scraped_at = ustr ''2025-01-01 10:00:00'', p_scraped_date = ustr ''2025-01-01'',
      p_extra_json = None\<rparr>"


section \<open>Evaluation on numerals and literals\<close>

lemma bitlen_0: "bitlen 0 = 0"
  by (simp add: bitlen.simps)

lemma bitlen_1: "bitlen (Suc 0) = 1"
  by (simp add: bitlen.simps)

lemma bitlen_numeral: "bitlen (numeral k) = 1 + bitlen (numeral k div 2)"
  by (subst bitlen.simps) simp

lemma decimal_0: "decimal 0 = [48]"
  by (simp add: decimal.simps)

lemma decimal_1: "decimal (Suc 0) = [49]"
  by (simp add: decimal.simps)

lemma decimal_numeral:
  "decimal (numeral k) =
     (if (numeral k :: nat) < 10 then [48 + numeral k]
      else decimal (numeral k div 10) @ [48 + numeral k mod 10])"
  by (subst decimal.simps) simp

lemmas py_eval =
  ustr_def is_space_def is_num_space_def is_digit_def dval_def digits_val_def strip_with_def
  strip_def show_int_def to_lower_def bindE_def try_except_def py_or_def floor_log2_def
  floor_log2_from_def rne_pick_def round_fin_def round_at_def float_scale_def float_mantissa_def
  float_digits_def float_signed_def
  rne_div_def round_double_def int_of_str_def float_exponent_def float_of_str_def as_int_def
  py_str_def wan_def yi_def num_char_def heat_regex_def heat_regex_tail_def scale_heat_def
  parse_heat_str_def parse_heat_value_def
  bitlen_0 bitlen_1 bitlen_numeral decimal_0 decimal_1 decimal_numeral

lemmas row_eval =
  build_row_def dict_get_def dict_get_default_def index0_def topic_key_of_def tags_of_def
  extra_of_def no_policy_def sample_env_def join_tags_def Let_def

section \<open>The numeric coercion \<open>_as_int\<close>\<close>

lemma as_int_Inr: "\<exists>r. as_int x = Inr r"
  unfolding as_int_def try_except_def by (auto split: sum.splits)

lemma as_int_order:
  "as_int x =
     Inr (if x = PNone \<or> x = PStr [] then None
          else case py_int x of
                 Inr n \<Rightarrow> Some n
               | Inl e \<Rightarrow> (case bindE (py_float x) float_to_int of
                             Inr n \<Rightarrow> Some n
                           | Inl e' \<Rightarrow> None))"
  unfolding as_int_def try_except_def by (auto split: sum.splits)

lemma index0_str_split: "index0 (str_split sep s) = Inr (takeWhile (\<lambda>c. c \<noteq> sep) s)"
proof (induction s)
  case Nil
  then show ?case by (simp add: index0_def)
next
  case (Cons c cs)
  then show ?case by (auto simp: index0_def split: list.splits)
qed

text \<open>
  Whether an item raises, is skipped or is kept is decided by its title, url and
  scraped_at alone.
\<close>

lemma build_row_outcome:
  "row_outcome (build_row env pf pol i it) =
     bindE (strip_method (py_or (dict_get it (ustr ''title'')) (PStr []))) (\<lambda>ttl.
     bindE (strip_method (py_or (dict_get it (ustr ''url'')) (PStr []))) (\<lambda>u.
     bindE (strip_method (py_or (dict_get it (ustr ''scraped_at'')) (PStr []))) (\<lambda>sa0.
       Inr (ttl \<noteq> [] \<and> u \<noteq> []))))"
proof -
  obtain hv where hv:
    "as_int (dict_get_default it (ustr ''heat_value'') (dict_get it (ustr ''num''))) = Inr hv"
    using as_int_Inr by blast
  obtain rk where rk: "as_int (dict_get it (ustr ''rank'')) = Inr rk"
    using as_int_Inr by blast
  show ?thesis
    unfolding build_row_def row_outcome_def
    by (simp add: bindE_def index0_str_split hv rk Let_def split: sum.splits)
qed

lemma build_row_coerced:
  assumes "build_row env pf pol i it = Inr (Some p)"
  shows "as_int (dict_get_default it (ustr ''heat_value'') (dict_get it (ustr ''num''))) =
           Inr (p_heat_value p)"
    and "as_int (dict_get it (ustr ''rank'')) = Inr (p_rank p)"
proof -
  obtain hv where hv:
    "as_int (dict_get_default it (ustr ''heat_value'') (dict_get it (ustr ''num''))) = Inr hv"
    using as_int_Inr by blast
  obtain rk where rk: "as_int (dict_get it (ustr ''rank'')) = Inr rk"
    using as_int_Inr by blast
  from assms have "p_heat_value p = hv \<and> p_rank p = rk"
    unfolding build_row_def
    by (auto simp: bindE_def index0_str_split hv rk Let_def split: sum.splits if_splits)
  then show "as_int (dict_get_default it (ustr ''heat_value'') (dict_get it (ustr ''num''))) =
           Inr (p_heat_value p)"
    and "as_int (dict_get it (ustr ''rank'')) = Inr (p_rank p)"
    using hv rk by simp_all
qed

lemma gate_keys_untouched:
  assumes "k \<in> {ustr ''heat_value'', ustr ''num'', ustr ''rank''}"
  shows "dict_get (it(k \<mapsto> v)) (ustr ''title'') = dict_get it (ustr ''title'')"
    and "dict_get (it(k \<mapsto> v)) (ustr ''url'') = dict_get it (ustr ''url'')"
    and "dict_get (it(k \<mapsto> v)) (ustr ''scraped_at'') = dict_get it (ustr ''scraped_at'')"
  using assms by (auto simp: dict_get_def dict_get_default_def ustr_def)

lemma build_row_item_abc:
  "build_row sample_env (ustr ''baidu'') no_policy 0 item_abc = Inr (Some row_abc)"
  by (simp add: row_eval item_abc_def row_abc_def py_eval)

text \<open>
  Claim C4. \<open>_as_int\<close> never raises, whatever its argument: it returns \<open>None\<close> for
  \<open>None\<close> and the empty string, otherwise the result of \<open>int(x)\<close>, if that raises the
  result of \<open>int(float(x))\<close>, and if that raises too \<open>None\<close>. On \<open>"42"\<close>, on the float
  42.9 (the double \<open>6037638250443571 * 2^-47\<close>), on \<open>None\<close>, \<open>""\<close> and \<open>"abc"\<close> it gives
  42, 42, absent, absent, absent. In \<open>upsert_history\<close> a kept record's heat_value and
  rank are the results of the coercion, and replacing the value under the key
  \<open>heat_value\<close>, \<open>num\<close> or \<open>rank\<close> by any other value never changes whether the item
  raises, is skipped or is kept: a failed coercion costs the field, not the record.
\<close>

theorem as_int_never_raises:
  "(\<exists>r. as_int x = Inr r) \<and>
   as_int x =
     Inr (if x = PNone \<or> x = PStr [] then None
          else case py_int x of
                 Inr n \<Rightarrow> Some n
               | Inl e \<Rightarrow> (case bindE (py_float x) float_to_int of
                             Inr n \<Rightarrow> Some n
                           | Inl e' \<Rightarrow> None)) \<and>
   as_int (PStr (ustr ''42'')) = Inr (Some 42) \<and>
   as_int (PFloat (Fin 6037638250443571 (- 47))) = Inr (Some 42) \<and>
   as_int PNone = Inr None \<and>
   as_int (PStr (ustr '''')) = Inr None \<and>
   as_int (PStr (ustr ''abc'')) = Inr None \<and>
   (build_row env pf pol i it = Inr (Some p) \<longrightarrow>
      as_int (dict_get_default it (ustr ''heat_value'') (dict_get it (ustr ''num''))) =
        Inr (p_heat_value p) \<and>
      as_int (dict_get it (ustr ''rank'')) = Inr (p_rank p)) \<and>
   (k \<in> {ustr ''heat_value'', ustr ''num'', ustr ''rank''} \<longrightarrow>
      row_outcome (build_row env pf pol i (it(k \<mapsto> v))) =
        row_outcome (build_row env pf pol i it))"
proof -
  have a: "\<exists>r. as_int x = Inr r" by (rule as_int_Inr)
  have e1: "as_int (PStr (ustr ''42'')) = Inr (Some 42)" by (simp add: py_eval)
  have e2: "as_int (PFloat (Fin 6037638250443571 (- 47))) = Inr (Some 42)"
    by (simp add: py_eval)
  have e3: "as_int PNone = Inr None" by (simp add: as_int_def)
  have e4: "as_int (PStr (ustr '''')) = Inr None" by (simp add: as_int_def ustr_def)
  have e5: "as_int (PStr (ustr ''abc'')) = Inr None" by (simp add: py_eval)
  have o: "k \<in> {ustr ''heat_value'', ustr ''num'', ustr ''rank''} \<Longrightarrow>
      row_outcome (build_row env pf pol i (it(k \<mapsto> v))) =
        row_outcome (build_row env pf pol i it)"
    by (simp only: build_row_outcome gate_keys_untouched)
  show ?thesis
    using a as_int_order [of x] e1 e2 e3 e4 e5 build_row_coerced [of env pf pol i it p] o
    by blast
qed

theorem as_int_never_raises_witness:
  "build_row sample_env (ustr ''baidu'') no_policy 0 item_abc = Inr (Some row_abc) \<and>
   p_title row_abc = ustr ''X'' \<and> p_heat_value row_abc = None \<and> p_rank row_abc = Some 7 \<and>
   as_int (PStr (ustr ''abc'')) = Inr (p_heat_value row_abc) \<and>
   as_int (PStr (ustr ''7'')) = Inr (p_rank row_abc) \<and>
   row_outcome (build_row sample_env (ustr ''baidu'') no_policy 0
      (item_abc(ustr ''rank'' \<mapsto> PList []))) = Inr True"
proof -
  note t = as_int_never_raises [of "PStr (ustr ''abc'')" sample_env "ustr ''baidu''" no_policy 0
        item_abc row_abc "ustr ''rank''" "PList []"]
  have k: "ustr ''rank'' \<in> {ustr ''heat_value'', ustr ''num'', ustr ''rank''}" by simp
  have o: "row_outcome (build_row sample_env (ustr ''baidu'') no_policy 0 item_abc) = Inr True"
    by (simp add: build_row_item_abc row_outcome_def)
  have hv: "dict_get_default item_abc (ustr ''heat_value'') (dict_get item_abc (ustr ''num'')) =
      PStr (ustr ''abc'')"
    by (simp add: item_abc_def dict_get_def dict_get_default_def ustr_def)
  have rk: "dict_get item_abc (ustr ''rank'') = PStr (ustr ''7'')"
    by (simp add: item_abc_def dict_get_def dict_get_default_def ustr_def)
  have v: "p_title row_abc = ustr ''X'' \<and> p_heat_value row_abc = None \<and> p_rank row_abc = Some 7"
    by (simp add: row_abc_def)
  from t build_row_item_abc hv rk
  have c: "as_int (PStr (ustr ''abc'')) = Inr (p_heat_value row_abc) \<and>
           as_int (PStr (ustr ''7'')) = Inr (p_rank row_abc)"
    by metis
  from t k o
  have o': "row_outcome (build_row sample_env (ustr ''baidu'') no_policy 0
      (item_abc(ustr ''rank'' \<mapsto> PList []))) = Inr True"
    by metis
  show ?thesis
    using build_row_item_abc v c o' by blast
qed

section \<open>The heat-text resolver of the Weibo adapter\<close>

text \<open>The examples of the specification, and inputs that are no number at all.\<close>

lemma parse_heat_value_examples:
  "parse_heat_value rp (PStr (ustr ''7904613'')) = Inr (Some 7904613) \<and>
   parse_heat_value rp (PInt 7904613) = Inr (Some 7904613) \<and>
   parse_heat_value rp (PStr (ustr ''23.00 '' @ [wan])) = Inr (Some 230000) \<and>
   parse_heat_value rp (PStr (ustr ''1.5 '' @ [yi])) = Inr (Some 150000000) \<and>
   parse_heat_value rp PNone = Inr None \<and>
   parse_heat_value rp (PStr (ustr '''')) = Inr None \<and>
   parse_heat_value rp (PStr (ustr ''abc'')) = Inr None \<and>
   parse_heat_value rp (PStr (ustr ''23'' @ [wan] @ ustr ''+'')) = Inr None"
  by (simp add: py_eval)

text \<open>
  Claim C5. The resolver does not turn every malformed input into an absent value: the
  string \<open>"1.2.3"\<close> (and \<open>"."\<close>) matches the regular expression, whose first group
  accepts any run of digits and points, and \<open>float\<close> of that group raises
  \<open>ValueError\<close> outside the \<open>try\<close> that guards only the branch without a match.
\<close>

theorem parse_heat_value_raises:
  "heat_regex (ustr ''1.2.3'') = Some (ustr ''1.2.3'', None) \<and>
   float_of_str (ustr ''1.2.3'') = Inl ValueError \<and>
   parse_heat_value rp (PStr (ustr ''1.2.3'')) = Inl ValueError \<and>
   parse_heat_value rp (PStr (ustr ''.'')) = Inl ValueError"
  by (simp add: py_eval)

section \<open>The ordering of \<open>query_history\<close>\<close>

text \<open>
  Claim C6. An \<open>order_by\<close> string outside \<open>_ALLOWED_ORDERS\<close> is replaced by
  \<open>scraped_at DESC\<close>: the query is the query with that default order, and no path of
  the check raises. A string of the list reaches the engine's \<open>ORDER BY\<close> as given.
\<close>

theorem order_by_falls_back:
  "(order_by \<notin> set ALLOWED_ORDERS \<longrightarrow>
      effective_order order_by = ustr ''scraped_at DESC'' \<and>
      query_history ord c kw ps df dt order_by lim off =
        query_history ord c kw ps df dt (ustr ''scraped_at DESC'') lim off) \<and>
   (order_by \<in> set ALLOWED_ORDERS \<longrightarrow>
      effective_order order_by = order_by \<and>
      query_history ord c kw ps df dt order_by lim off =
        map select_columns
          (limit_offset lim off
             (ord order_by (filter (where_clause kw ps df dt) (rows (visible c))))))"
proof -
  have d: "effective_order (ustr ''scraped_at DESC'') = ustr ''scraped_at DESC''"
    by (simp add: effective_order_def)
  show ?thesis
    by (simp add: query_history_def d) (simp add: effective_order_def)
qed

theorem order_by_falls_back_witness:
  "ustr ''title; DROP TABLE hot_items_history'' \<notin> set ALLOWED_ORDERS \<and>
   effective_order (ustr ''title; DROP TABLE hot_items_history'') = ustr ''scraped_at DESC'' \<and>
   query_history (\<lambda>ob rs. rs) empty_conn None None None None
       (ustr ''title; DROP TABLE hot_items_history'') 50 0 =
     query_history (\<lambda>ob rs. rs) empty_conn None None None None (ustr ''scraped_at DESC'') 50 0 \<and>
   ustr ''rank ASC'' \<in> set ALLOWED_ORDERS \<and>
   effective_order (ustr ''rank ASC'') = ustr ''rank ASC''"
proof -
  have n: "ustr ''title; DROP TABLE hot_items_history'' \<notin> set ALLOWED_ORDERS"
    by (simp add: ALLOWED_ORDERS_def ustr_def)
  have y: "ustr ''rank ASC'' \<in> set ALLOWED_ORDERS"
    by (simp add: ALLOWED_ORDERS_def)
  show ?thesis
    using n y
      order_by_falls_back [of "ustr ''title; DROP TABLE hot_items_history''" "\<lambda>ob rs. rs"
        empty_conn None None None None 50 0]
      order_by_falls_back [of "ustr ''rank ASC''" "\<lambda>ob rs. rs" empty_conn None None None None 50 0]
    by simp
qed

section \<open>The keyword filter of \<open>count_history\<close> and \<open>query_history\<close>\<close>

text \<open>The three replacements of \<open>_escape_like\<close> escape each character once.\<close>

lemma escape_like_concat:
  "escape_like s = concat (map (\<lambda>c. if c = 92 \<or> c = 37 \<or> c = 95 then [92, c] else [c]) s)"
  by (induction s) (auto simp: escape_like_def str_replace_def)

lemma sql_like_escaped:
  "sql_like 92 (escape_like k @ p) t \<longleftrightarrow>
     (\<exists>w v. t = w @ v \<and> list_all2 like_char k w \<and> sql_like 92 p v)"
proof (induction k arbitrary: t)
  case Nil
  then show ?case by (simp add: escape_like_concat)
next
  case (Cons c ks)
  show ?case
  proof (cases t)
    case Nil
    then show ?thesis by (simp add: escape_like_concat)
  next
    case (Cons x s)
    have "sql_like 92 (escape_like (c # ks) @ p) (x # s) \<longleftrightarrow>
            like_char c x \<and> sql_like 92 (escape_like ks @ p) s"
      by (simp add: escape_like_concat)
    also have "\<dots> \<longleftrightarrow> like_char c x \<and>
            (\<exists>w v. s = w @ v \<and> list_all2 like_char ks w \<and> sql_like 92 p v)"
      using Cons.IH by simp
    also have "\<dots> \<longleftrightarrow>
            (\<exists>w v. x # s = w @ v \<and> list_all2 like_char (c # ks) w \<and> sql_like 92 p v)"
    proof
      assume "like_char c x \<and> (\<exists>w v. s = w @ v \<and> list_all2 like_char ks w \<and> sql_like 92 p v)"
      then obtain w v where "like_char c x" "s = w @ v" "list_all2 like_char ks w" "sql_like 92 p v"
        by blast
      then have "x # s = (x # w) @ v \<and> list_all2 like_char (c # ks) (x # w) \<and> sql_like 92 p v"
        by simp
      then show "\<exists>w v. x # s = w @ v \<and> list_all2 like_char (c # ks) w \<and> sql_like 92 p v"
        by blast
    next
      assume "\<exists>w v. x # s = w @ v \<and> list_all2 like_char (c # ks) w \<and> sql_like 92 p v"
      then obtain w v where wv: "x # s = w @ v" "list_all2 like_char (c # ks) w" "sql_like 92 p v"
        by blast
      from wv(2) obtain y w' where w: "w = y # w'" "like_char c y" "list_all2 like_char ks w'"
        by (auto simp: list_all2_Cons1)
      with wv(1) have "y = x" "s = w' @ v" by simp_all
      with w wv(3) show "like_char c x \<and> (\<exists>w v. s = w @ v \<and> list_all2 like_char ks w \<and> sql_like 92 p v)"
        by blast
    qed
    finally show ?thesis using Cons by simp
  qed
qed

lemma sql_like_percent_all: "sql_like 92 [37] t"
  by (induction t) simp_all

lemma sql_like_percent:
  "sql_like 92 (37 # p) t \<longleftrightarrow> (\<exists>u v. t = u @ v \<and> sql_like 92 p v)"
proof (induction t)
  case Nil
  then show ?case by simp
next
  case (Cons x s)
  have "sql_like 92 (37 # p) (x # s) \<longleftrightarrow> sql_like 92 p (x # s) \<or> sql_like 92 (37 # p) s"
    by simp
  also have "\<dots> \<longleftrightarrow> sql_like 92 p (x # s) \<or> (\<exists>u v. s = u @ v \<and> sql_like 92 p v)"
    using Cons.IH by simp
  also have "\<dots> \<longleftrightarrow> (\<exists>u v. x # s = u @ v \<and> sql_like 92 p v)"
  proof
    assume "sql_like 92 p (x # s) \<or> (\<exists>u v. s = u @ v \<and> sql_like 92 p v)"
    then show "\<exists>u v. x # s = u @ v \<and> sql_like 92 p v"
    proof
      assume "sql_like 92 p (x # s)"
      then have "x # s = [] @ (x # s) \<and> sql_like 92 p (x # s)" by simp
      then show ?thesis by blast
    next
      assume "\<exists>u v. s = u @ v \<and> sql_like 92 p v"
      then obtain u v where "s = u @ v" "sql_like 92 p v" by blast
      then have "x # s = (x # u) @ v \<and> sql_like 92 p v" by simp
      then show ?thesis by blast
    qed
  next
    assume "\<exists>u v. x # s = u @ v \<and> sql_like 92 p v"
    then obtain u v where uv: "x # s = u @ v" "sql_like 92 p v" by blast
    show "sql_like 92 p (x # s) \<or> (\<exists>u v. s = u @ v \<and> sql_like 92 p v)"
    proof (cases u)
      case Nil
      with uv show ?thesis by simp
    next
      case (Cons y u')
      with uv have "s = u' @ v" by simp
      with uv(2) show ?thesis by blast
    qed
  qed
  finally show ?case .
qed

lemma literal_prefix_iff:
  "literal_prefix k t \<longleftrightarrow> (\<exists>w v. t = w @ v \<and> list_all2 like_char k w)"
proof (induction k t rule: literal_prefix.induct)
  case (1 t)
  then show ?case by simp
next
  case (2 k ks)
  then show ?case by (simp add: list_all2_Cons1)
next
  case (3 k ks x xs)
  show ?case
  proof
    assume "literal_prefix (k # ks) (x # xs)"
    with 3 obtain w v where "like_char k x" "xs = w @ v" "list_all2 like_char ks w"
      by auto
    then have "x # xs = (x # w) @ v \<and> list_all2 like_char (k # ks) (x # w)" by simp
    then show "\<exists>w v. x # xs = w @ v \<and> list_all2 like_char (k # ks) w" by blast
  next
    assume "\<exists>w v. x # xs = w @ v \<and> list_all2 like_char (k # ks) w"
    then obtain w v where wv: "x # xs = w @ v" "list_all2 like_char (k # ks) w" by blast
    from wv(2) obtain y w' where w: "w = y # w'" "like_char k y" "list_all2 like_char ks w'"
      by (auto simp: list_all2_Cons1)
    with wv(1) have "y = x" "xs = w' @ v" by simp_all
    with w 3 show "literal_prefix (k # ks) (x # xs)" by auto
  qed
qed

lemma occurs_literally_iff:
  "occurs_literally k t \<longleftrightarrow> (\<exists>u w v. t = u @ w @ v \<and> list_all2 like_char k w)"
proof (induction t)
  case Nil
  then show ?case by (auto simp: literal_prefix_iff)
next
  case (Cons x xs)
  show ?case
  proof
    assume "occurs_literally k (x # xs)"
    then have "literal_prefix k (x # xs) \<or> occurs_literally k xs" by simp
    then show "\<exists>u w v. x # xs = u @ w @ v \<and> list_all2 like_char k w"
    proof
      assume "literal_prefix k (x # xs)"
      then obtain w v where "x # xs = w @ v" "list_all2 like_char k w"
        by (auto simp: literal_prefix_iff)
      then have "x # xs = [] @ w @ v \<and> list_all2 like_char k w" by simp
      then show ?thesis by blast
    next
      assume "occurs_literally k xs"
      with Cons obtain u w v where "xs = u @ w @ v" "list_all2 like_char k w" by blast
      then have "x # xs = (x # u) @ w @ v \<and> list_all2 like_char k w" by simp
      then show ?thesis by blast
    qed
  next
    assume "\<exists>u w v. x # xs = u @ w @ v \<and> list_all2 like_char k w"
    then obtain u w v where uwv: "x # xs = u @ w @ v" "list_all2 like_char k w" by blast
    show "occurs_literally k (x # xs)"
    proof (cases u)
      case Nil
      with uwv have "literal_prefix k (x # xs)"
        by (auto simp: literal_prefix_iff)
      then show ?thesis by simp
    next
      case (Cons y u')
      with uwv have "xs = u' @ w @ v" by simp
      with uwv(2) Cons.IH have "occurs_literally k xs" by blast
      then show ?thesis by simp
    qed
  qed
qed

lemma sql_like_pattern: "sql_like 92 (like_pattern k) t = occurs_literally k t"
proof -
  have "sql_like 92 (like_pattern k) t \<longleftrightarrow>
          (\<exists>u v. t = u @ v \<and> sql_like 92 (escape_like k @ [37]) v)"
    by (simp add: like_pattern_def sql_like_percent)
  also have "\<dots> \<longleftrightarrow> (\<exists>u w v. t = u @ w @ v \<and> list_all2 like_char k w)"
    by (simp add: sql_like_escaped sql_like_percent_all) blast
  finally show ?thesis by (simp add: occurs_literally_iff)
qed

text \<open>Without the escaping the \<open>%\<close> of a keyword would be a wildcard.\<close>

lemma unescaped_percent_is_wildcard:
  "sql_like 92 (37 # ustr ''50%'' @ [37]) (ustr ''up 500 today'')"
  by (simp add: ustr_def like_char_def to_lower_def)

text \<open>
  Claim C7. The pattern both methods bind for a keyword, \<open>%\<close> + escaped keyword +
  \<open>%\<close> with the backslash as the escape character, matches a text exactly when the keyword occurs
  in it character by character (an ASCII letter in either case, as \<open>LIKE\<close> compares):
  a \<open>%\<close>, a \<open>_\<close> and a backslash of the keyword stand for themselves and never for other
  characters. So the \<open>WHERE\<close> clause with a keyword selects the rows whose title, excerpt
  or url contains the keyword literally, and \<open>count_history\<close> counts those.
\<close>

theorem keyword_matched_literally:
  "sql_like 92 (like_pattern keyword) t = occurs_literally keyword t \<and>
   (occurs_literally keyword t \<longleftrightarrow>
      (\<exists>u w v. t = u @ w @ v \<and> list_all2 like_char keyword w)) \<and>
   (where_clause (Some keyword) ps df dt r \<longleftrightarrow>
      where_clause None ps df dt r \<and>
      (keyword = [] \<or> occurs_literally keyword (title r) \<or>
       (case excerpt r of None \<Rightarrow> False | Some e \<Rightarrow> occurs_literally keyword e) \<or>
       occurs_literally keyword (url r))) \<and>
   count_history c (Some keyword) ps df dt =
     length (filter (\<lambda>r. where_clause None ps df dt r \<and>
       (keyword = [] \<or> occurs_literally keyword (title r) \<or>
        (case excerpt r of None \<Rightarrow> False | Some e \<Rightarrow> occurs_literally keyword e) \<or>
        occurs_literally keyword (url r))) (rows (visible c)))"
proof -
  have w: "where_clause (Some keyword) ps df dt r \<longleftrightarrow>
      where_clause None ps df dt r \<and>
      (keyword = [] \<or> occurs_literally keyword (title r) \<or>
       (case excerpt r of None \<Rightarrow> False | Some e \<Rightarrow> occurs_literally keyword e) \<or>
       occurs_literally keyword (url r))" for r
    by (auto simp: where_clause_def col_like_def sql_like_pattern Let_def split: option.splits)
  have a: "sql_like 92 (like_pattern keyword) t = occurs_literally keyword t"
    by (rule sql_like_pattern)
  have b: "occurs_literally keyword t \<longleftrightarrow>
      (\<exists>u w v. t = u @ w @ v \<and> list_all2 like_char keyword w)"
    by (rule occurs_literally_iff)
  have c: "count_history c (Some keyword) ps df dt =
     length (filter (\<lambda>r. where_clause None ps df dt r \<and>
       (keyword = [] \<or> occurs_literally keyword (title r) \<or>
        (case excerpt r of None \<Rightarrow> False | Some e \<Rightarrow> occurs_literally keyword e) \<or>
        occurs_literally keyword (url r))) (rows (visible c)))"
  proof -
    have "where_clause (Some keyword) ps df dt =
        (\<lambda>r. where_clause None ps df dt r \<and>
          (keyword = [] \<or> occurs_literally keyword (title r) \<or>
           (case excerpt r of None \<Rightarrow> False | Some e \<Rightarrow> occurs_literally keyword e) \<or>
           occurs_literally keyword (url r)))"
      by (rule ext) (rule w)
    then show ?thesis unfolding count_history_def by (rule arg_cong)
  qed
  from a b w c show ?thesis by (intro conjI)
qed

theorem keyword_matched_literally_witness:
  "sql_like 92 (like_pattern (ustr ''50%'')) (ustr ''up 50% today'') \<and>
   \<not> sql_like 92 (like_pattern (ustr ''50%'')) (ustr ''up 500 today'') \<and>
   \<not> sql_like 92 (like_pattern (ustr ''a_c'')) (ustr ''abc'') \<and>
   sql_like 92 (like_pattern (ustr ''a_c'')) (ustr ''xA_Cx'') \<and>
   sql_like 92 (like_pattern [92]) (ustr ''a'' @ [92] @ ustr ''b'') \<and>
   \<not> sql_like 92 (like_pattern [92]) (ustr ''ab'')"
proof -
  have e: "occurs_literally (ustr ''50%'') (ustr ''up 50% today'')"
    "\<not> occurs_literally (ustr ''50%'') (ustr ''up 500 today'')"
    "\<not> occurs_literally (ustr ''a_c'') (ustr ''abc'')"
    "occurs_literally (ustr ''a_c'') (ustr ''xA_Cx'')"
    "occurs_literally [92] (ustr ''a'' @ [92] @ ustr ''b'')"
    "\<not> occurs_literally [92] (ustr ''ab'')"
    by (simp_all add: ustr_def like_char_def to_lower_def)
  show ?thesis
    using e
      keyword_matched_literally [of "ustr ''50%''" "ustr ''up 50% today''", THEN conjunct1]
      keyword_matched_literally [of "ustr ''50%''" "ustr ''up 500 today''", THEN conjunct1]
      keyword_matched_literally [of "ustr ''a_c''" "ustr ''abc''", THEN conjunct1]
      keyword_matched_literally [of "ustr ''a_c''" "ustr ''xA_Cx''", THEN conjunct1]
      keyword_matched_literally [of "[92]" "ustr ''a'' @ [92] @ ustr ''b''", THEN conjunct1]
      keyword_matched_literally [of "[92]" "ustr ''ab''", THEN conjunct1]
    by (simp only: simp_thms)
qed

end
